theory Spec2Isabelle
  imports Main "HOL-Library.Word"
begin

section \<open>Values of the host language\<close>

text \<open>
  The program is the TypeScript module \<^verbatim>\<open>src/types/index.ts\<close>.  A string of the
  program is a sequence of 16-bit code units, and strings are compared with
  \<^verbatim>\<open>===\<close>, that is, unit by unit.  A \<^verbatim>\<open>number\<close> that the program only adds
  and compares (prices, totals, indices) is an integer here: the catalogue's
  prices are the integers 0 to 9, the specification treats amounts as exact
  integers, and on integers of that size the program's arithmetic is exact.
  A property declared optional (\<^verbatim>\<open>address?\<close>, \<^verbatim>\<open>selected?\<close>) or a class field
  that no code initialises holds \<^verbatim>\<open>undefined\<close>, which is \<open>None\<close>.
\<close>

type_synonym js_string = "16 word list"

definition ascii :: "string \<Rightarrow> js_string" where
  "ascii s = map (\<lambda>c. of_nat (of_char c)) s"

text \<open>The Cyrillic string literals of the source, as code units.\<close>

definition msg_no_address :: js_string where
  \<comment> \<open>"Ne ukazan adres" (no address given)\<close>
  "msg_no_address =
     [0x41d, 0x435, 0x20, 0x443, 0x43a, 0x430, 0x437, 0x430, 0x43d, 0x20,
      0x430, 0x434, 0x440, 0x435, 0x441]"

definition msg_item_prefix :: js_string where
  \<comment> \<open>"Tovar s id " (item with id)\<close>
  "msg_item_prefix =
     [0x422, 0x43e, 0x432, 0x430, 0x440, 0x20, 0x441, 0x20, 0x69, 0x64, 0x20]"

definition msg_item_suffix :: js_string where
  \<comment> \<open>" ne najden" (not found)\<close>
  "msg_item_suffix =
     [0x20, 0x43d, 0x435, 0x20, 0x43d, 0x430, 0x439, 0x434, 0x435, 0x43d]"

definition msg_wrong_total :: js_string where
  \<comment> \<open>"Nevernaya summa zakaza" (wrong order total)\<close>
  "msg_wrong_total =
     [0x41d, 0x435, 0x432, 0x435, 0x440, 0x43d, 0x430, 0x44f, 0x20, 0x441,
      0x443, 0x43c, 0x43c, 0x430, 0x20, 0x437, 0x430, 0x43a, 0x430, 0x437, 0x430]"

definition msg_item_not_found :: "js_string \<Rightarrow> js_string" where
  \<comment> \<open>the template literal of \<^verbatim>\<open>postOrder\<close>, with the ordered id spliced in\<close>
  "msg_item_not_found orderedItemId = msg_item_prefix @ orderedItemId @ msg_item_suffix"

definition lbl_item :: js_string where
  \<comment> \<open>"Tovar "\<close>
  "lbl_item = [0x422, 0x43e, 0x432, 0x430, 0x440, 0x20]"

definition lbl_category :: js_string where
  \<comment> \<open>"Kategoriya "\<close>
  "lbl_category = [0x41a, 0x430, 0x442, 0x435, 0x433, 0x43e, 0x440, 0x438, 0x44f, 0x20]"

definition lbl_description :: js_string where
  \<comment> \<open>"Opisanie "\<close>
  "lbl_description = [0x41e, 0x43f, 0x438, 0x441, 0x430, 0x43d, 0x438, 0x435, 0x20]"

section \<open>Items\<close>

record BaseItem =
  id' :: js_string
  name :: js_string
  price :: int

type_synonym BasketItem = BaseItem

record CatalogItem = BaseItem +
  category :: js_string
  image' :: js_string
  description :: js_string

record IItemModel =
  id' :: js_string
  name :: js_string
  price :: int
  category :: js_string
  image' :: js_string
  description :: js_string

definition new_BasketItem :: "IItemModel \<Rightarrow> BasketItem" where
  "new_BasketItem d =
     \<lparr>BaseItem.id' = IItemModel.id' d, BaseItem.name = IItemModel.name d,
      BaseItem.price = IItemModel.price d\<rparr>"

definition new_CatalogItem :: "IItemModel \<Rightarrow> CatalogItem" where
  "new_CatalogItem d =
     \<lparr>BaseItem.id' = IItemModel.id' d, BaseItem.name = IItemModel.name d,
      BaseItem.price = IItemModel.price d,
      CatalogItem.category = IItemModel.category d,
      CatalogItem.image' = IItemModel.image' d,
      CatalogItem.description = IItemModel.description d\<rparr>"

section \<open>Collections\<close>

record 'd IList =
  total :: int
  items :: "'d list"

text \<open>
  The abstract class \<^verbatim>\<open>List\<close> declares \<^verbatim>\<open>total\<close> and \<^verbatim>\<open>_items\<close> without
  initialisers, and neither it nor a subclass constructor assigns them: a new
  object holds \<^verbatim>\<open>undefined\<close> in both.  A method that reads a property of
  \<^verbatim>\<open>undefined\<close> throws a \<^verbatim>\<open>TypeError\<close>.  A method returns its completion (the
  thrown error, or normal return) together with the object's state after it.
\<close>

record 't List =
  total :: "int option"
  items' :: "'t list option"

datatype exn = TypeError

definition get_items :: "'t List \<Rightarrow> 't list option" where
  \<comment> \<open>the getter \<^verbatim>\<open>items\<close>\<close>
  "get_items this = items' this"

definition new_List :: "'t List" where
  \<comment> \<open>what \<^verbatim>\<open>new CatalogList(api)\<close> and \<^verbatim>\<open>new BasketList()\<close> leave in the two fields\<close>
  "new_List = \<lparr>List.total = None, items' = None\<rparr>"

definition load :: "('d \<Rightarrow> 't) \<Rightarrow> ('e + 'd IList) \<Rightarrow> 't List \<Rightarrow> ('e + unit) \<times> 't List" where
  \<comment> \<open>\<^verbatim>\<open>load\<close>, given \<^verbatim>\<open>this._ItemConstructor\<close> and what the awaited
      \<^verbatim>\<open>this._api.loadItemsList()\<close> settles with: \<open>Inl\<close> a rejection, which the
      \<^verbatim>\<open>await\<close> rethrows before any assignment, \<open>Inr\<close> the resolved list\<close>
  "load ItemConstructor settled this =
     (case settled of
        Inl reason \<Rightarrow> (Inl reason, this)
      | Inr dat \<Rightarrow>
          (Inr (),
           this\<lparr>List.total := Some (IList.total dat),
                items' := Some (map ItemConstructor (IList.items dat))\<rparr>))"

definition CatalogList_load :: "('e + IItemModel IList) \<Rightarrow> CatalogItem List \<Rightarrow> ('e + unit) \<times> CatalogItem List" where
  \<comment> \<open>\<^verbatim>\<open>CatalogList\<close> passes the class \<^verbatim>\<open>CatalogItem\<close> to \<^verbatim>\<open>super\<close>\<close>
  "CatalogList_load = load new_CatalogItem"

definition msg_open_card :: js_string where
  \<comment> \<open>"Otkrytie kartochki s tovarom " (opening the card of item)\<close>
  "msg_open_card =
     [0x41e, 0x442, 0x43a, 0x440, 0x44b, 0x442, 0x438, 0x435, 0x20, 0x43a,
      0x430, 0x440, 0x442, 0x43e, 0x447, 0x43a, 0x438, 0x20, 0x441, 0x20,
      0x442, 0x43e, 0x432, 0x430, 0x440, 0x43e, 0x43c, 0x20]"

definition itemClick :: "'t List \<Rightarrow> int \<Rightarrow> (exn + unit) \<times> (js_string \<times> int) list \<times> 't List" where
  \<comment> \<open>\<^verbatim>\<open>CatalogList.itemClick\<close>: one \<^verbatim>\<open>console.log\<close> of a template literal, kept as
      its fixed text and the number interpolated after it; the middle component
      is what the call writes to the console\<close>
  "itemClick this itemIndex = (Inr (), [(msg_open_card, itemIndex)], this)"

definition splice' :: "'t list \<Rightarrow> int \<Rightarrow> int \<Rightarrow> 't list" where
  \<comment> \<open>the array after \<^verbatim>\<open>Array.prototype.splice(start, deleteCount)\<close>: a negative
      start counts from the end, and both arguments are clamped to the array\<close>
  "splice' xs start deleteCount =
     (let len = int (length xs);
          actualStart = (if start < 0 then max (len + start) 0 else min start len);
          actualDeleteCount = min (max deleteCount 0) (len - actualStart)
      in take (nat actualStart) xs @ drop (nat (actualStart + actualDeleteCount)) xs)"

definition addItem :: "'t List \<Rightarrow> 't \<Rightarrow> (exn + unit) \<times> 't List" where
  \<comment> \<open>\<^verbatim>\<open>this._items.push(item)\<close>\<close>
  "addItem this item =
     (case items' this of
        None \<Rightarrow> (Inl TypeError, this)
      | Some xs \<Rightarrow> (Inr (), this\<lparr>items' := Some (xs @ [item])\<rparr>))"

definition delete :: "'t List \<Rightarrow> int \<Rightarrow> (exn + unit) \<times> 't List" where
  \<comment> \<open>\<^verbatim>\<open>this._items.splice(itemIndex, 1)\<close>\<close>
  "delete this itemIndex =
     (case items' this of
        None \<Rightarrow> (Inl TypeError, this)
      | Some xs \<Rightarrow> (Inr (), this\<lparr>items' := Some (splice' xs itemIndex 1)\<rparr>))"

section \<open>The order interface and the fake data source\<close>

datatype PaymentType = offline | online

record IOrderInfo =
  payment :: PaymentType
  email :: js_string
  phone :: js_string
  address :: "js_string option"
  total :: int
  items :: "js_string list"

text \<open>
  The union \<^verbatim>\<open>OrderPostResponse | ErrorResponse\<close> that \<^verbatim>\<open>postOrder\<close> resolves
  with.  The promise always resolves, so the function returns the value.
\<close>

datatype PostResult =
  OrderPostResponse js_string int
  | ErrorResponse js_string

definition fake_item :: "string \<Rightarrow> int \<Rightarrow> IItemModel" where
  \<comment> \<open>one literal of the array \<^verbatim>\<open>data\<close>: every text field ends in the item's digit\<close>
  "fake_item d p =
     \<lparr>id' = ascii d, name = lbl_item @ ascii d, price = p,
      category = lbl_category @ ascii d,
      image' = ascii ''Image '' @ ascii d @ ascii ''.jpg'',
      description = lbl_description @ ascii d\<rparr>"

definition data :: "IItemModel list" where
  "data =
     [fake_item ''0'' 0, fake_item ''1'' 1, fake_item ''2'' 2, fake_item ''3'' 3,
      fake_item ''4'' 4, fake_item ''5'' 5, fake_item ''6'' 6, fake_item ''7'' 7,
      fake_item ''8'' 8, fake_item ''9'' 9]"

definition falsy_string :: "js_string option \<Rightarrow> bool" where
  \<comment> \<open>\<^verbatim>\<open>!s\<close> for an optional string: \<^verbatim>\<open>undefined\<close> and the empty string are falsy\<close>
  "falsy_string s = (case s of None \<Rightarrow> True | Some v \<Rightarrow> v = [])"

definition itemExists :: "IItemModel list \<Rightarrow> js_string \<Rightarrow> bool" where
  \<comment> \<open>\<^verbatim>\<open>this.data.some(item => item.id === orderedItemId)\<close>\<close>
  "itemExists dat orderedItemId = list_ex (\<lambda>item. id' item = orderedItemId) dat"

fun first_missing :: "IItemModel list \<Rightarrow> js_string list \<Rightarrow> js_string option" where
  \<comment> \<open>the \<^verbatim>\<open>for ... of\<close> loop: the id at which it returns, if it returns\<close>
  "first_missing dat [] = None"
| "first_missing dat (orderedItemId # rest) =
     (if \<not> itemExists dat orderedItemId then Some orderedItemId
      else first_missing dat rest)"

definition price_or_0 :: "IItemModel option \<Rightarrow> int" where
  \<comment> \<open>\<^verbatim>\<open>item?.price || 0\<close>: no item, or a falsy price, gives 0\<close>
  "price_or_0 item =
     (case item of None \<Rightarrow> 0 | Some i \<Rightarrow> (if price i = 0 then 0 else price i))"

definition calculatedTotal :: "IItemModel list \<Rightarrow> js_string list \<Rightarrow> int" where
  \<comment> \<open>the \<^verbatim>\<open>reduce\<close> over the ordered ids, from 0\<close>
  "calculatedTotal dat ids =
     foldl (\<lambda>sum itemId. sum + price_or_0 (find (\<lambda>item. id' item = itemId) dat)) 0 ids"

definition postOrder_on :: "IItemModel list \<Rightarrow> IOrderInfo \<Rightarrow> PostResult" where
  \<comment> \<open>the body of \<^verbatim>\<open>postOrder\<close>, with \<^verbatim>\<open>this.data\<close> as a parameter\<close>
  "postOrder_on dat orderInfo =
     (if falsy_string (address orderInfo) then ErrorResponse msg_no_address
      else case first_missing dat (items orderInfo) of
        Some orderedItemId \<Rightarrow> ErrorResponse (msg_item_not_found orderedItemId)
      | None \<Rightarrow>
         (if calculatedTotal dat (items orderInfo) \<noteq> total orderInfo
          then ErrorResponse msg_wrong_total
          else OrderPostResponse (ascii ''test-order-id'') (total orderInfo)))"

definition postOrder :: "IOrderInfo \<Rightarrow> PostResult" where
  \<comment> \<open>\<^verbatim>\<open>FakeItemsAPI.postOrder\<close>: \<^verbatim>\<open>data\<close> is private and never assigned again\<close>
  "postOrder = postOrder_on data"

definition loadItemsList :: "IItemModel IList" where
  \<comment> \<open>\<^verbatim>\<open>FakeItemsAPI.loadItemsList\<close>, which always resolves; \<^verbatim>\<open>total\<close> is 10\<close>
  "loadItemsList = \<lparr>IList.total = 10, IList.items = data\<rparr>"

text \<open>
  The specification's reading of the catalogue, for comparison with the code:
  the canonical item set is a mapping from id to item (the first item with
  that id, as \<^verbatim>\<open>find\<close> returns it), and the expected total is the sum of
  the canonical prices over the ordered ids, one summand per occurrence.
\<close>

definition canonical :: "IItemModel list \<Rightarrow> js_string \<rightharpoonup> IItemModel" where
  "canonical dat = map_of (map (\<lambda>item. (id' item, item)) dat)"

definition expectedTotal :: "IItemModel list \<Rightarrow> js_string list \<Rightarrow> int" where
  "expectedTotal dat ids = sum_list (map (\<lambda>i. price (the (canonical dat i))) ids)"

section \<open>Form fields\<close>

text \<open>
  The two object shapes the factories create, told apart by \<^verbatim>\<open>fieldType\<close>:
  \<open>EditTextField\<close> is \<^verbatim>\<open>'editText'\<close>, \<open>RadioButtonField\<close> is \<^verbatim>\<open>'radioButton'\<close>.
  Each carries the \<^verbatim>\<open>isValid\<close> its factory gave it; \<^verbatim>\<open>value\<close> and \<^verbatim>\<open>selected\<close>
  are assigned freely afterwards, \<^verbatim>\<open>selected\<close> being declared optional.
\<close>

datatype IField =
  EditTextField (fieldName: js_string) (hint: js_string) (value': js_string)
  | RadioButtonField (fieldName: js_string) (choices: "js_string list")
      (selected: "js_string option")

definition createEditTextField :: "js_string \<Rightarrow> js_string \<Rightarrow> IField" where
  "createEditTextField n h = EditTextField n h []"

definition createRadioButtonField :: "js_string \<Rightarrow> js_string list \<Rightarrow> IField" where
  "createRadioButtonField n cs = RadioButtonField n cs (Some [])"

definition is_white_space :: "16 word \<Rightarrow> bool" where
  \<comment> \<open>the code units \<^verbatim>\<open>String.prototype.trim\<close> strips: the language's white space
      (tab, VT, FF, the space separators, U+FEFF) and its line terminators\<close>
  "is_white_space c =
     (c \<in> set [0x9, 0xA, 0xB, 0xC, 0xD, 0x20, 0xA0, 0x1680, 0x2028, 0x2029,
                0x202F, 0x205F, 0x3000, 0xFEFF]
      \<or> (0x2000 \<le> c \<and> c \<le> 0x200A))"

definition trim :: "js_string \<Rightarrow> js_string" where
  "trim s = rev (dropWhile is_white_space (rev (dropWhile is_white_space s)))"

fun isValid :: "IField \<Rightarrow> bool" where
  \<comment> \<open>\<^verbatim>\<open>this.value.trim().length > 0\<close>, and \<^verbatim>\<open>this.selected !== ''\<close>, which
      \<^verbatim>\<open>undefined\<close> satisfies\<close>
  "isValid (EditTextField n h v) = (length (trim v) > 0)"
| "isValid (RadioButtonField n cs sel) = (sel \<noteq> Some [])"

record OrderPopup =
  bottomButtonText :: js_string
  fields' :: "IField list"

definition OrderPopup_isValid :: "OrderPopup \<Rightarrow> bool" where
  \<comment> \<open>\<^verbatim>\<open>this.fields.every(field => field.isValid())\<close>\<close>
  "OrderPopup_isValid this = list_all isValid (fields' this)"

text \<open>
  The object that \<^verbatim>\<open>getFormData\<close> fills is its own properties: a map from a
  key to the stored value, which is a string or \<^verbatim>\<open>undefined\<close>.  It starts as
  the literal \<^verbatim>\<open>{}\<close>, whose prototype is \<^verbatim>\<open>Object.prototype\<close>.  An assignment
  \<^verbatim>\<open>obj[key] = v\<close> creates or overwrites the own property, except under the key
  \<^verbatim>\<open>__proto__\<close>: that one is an accessor inherited from the prototype, and its
  setter ignores a value that is neither an object nor \<^verbatim>\<open>null\<close>.
\<close>

type_synonym js_record = "js_string \<rightharpoonup> js_string option"

definition assign :: "js_record \<Rightarrow> js_string \<Rightarrow> js_string option \<Rightarrow> js_record" where
  "assign obj key v = (if key = ascii ''__proto__'' then obj else obj(key \<mapsto> v))"

fun collect :: "js_record \<Rightarrow> IField \<Rightarrow> js_record" where
  \<comment> \<open>the callback of the \<^verbatim>\<open>reduce\<close> in \<^verbatim>\<open>getFormData\<close>\<close>
  "collect fieldsData (EditTextField n h v) = assign fieldsData n (Some v)"
| "collect fieldsData (RadioButtonField n cs sel) = assign fieldsData n sel"

text \<open>
  \<^verbatim>\<open>getFormData\<close> returns \<^verbatim>\<open>this.isValid && this.fields.reduce(...)\<close>.  The left
  operand is the method itself, not a call of it.  \<^verbatim>\<open>a && b\<close> is \<^verbatim>\<open>b\<close> when
  \<^verbatim>\<open>a\<close> is truthy and \<^verbatim>\<open>a\<close> otherwise, and a function object is truthy.
\<close>

datatype js_operand = JSFunction | JSBoolean bool

fun truthy :: "js_operand \<Rightarrow> bool" where
  "truthy JSFunction = True"
| "truthy (JSBoolean b) = b"

definition js_and :: "js_operand \<Rightarrow> 'b \<Rightarrow> js_operand + 'b" where
  "js_and a b = (if truthy a then Inr b else Inl a)"

definition getFormData :: "OrderPopup \<Rightarrow> js_operand + js_record" where
  "getFormData this = js_and JSFunction (foldl collect Map.empty (fields' this))"

section \<open>Notions of the specification, and a sample basket\<close>

text \<open>The current value of a field: the text of a text field, the selection of a choice field.\<close>

definition field_value :: "IField \<Rightarrow> js_string option" where
  "field_value f = (case f of EditTextField n h v \<Rightarrow> Some v | RadioButtonField n cs sel \<Rightarrow> sel)"

text \<open>A basket whose array holds three items A, B, C (made from the first three of \<^verbatim>\<open>data\<close>).\<close>

definition basket_ABC :: "BasketItem List" where
  "basket_ABC = \<lparr>List.total = None,
     items' = Some [new_BasketItem (fake_item ''0'' 0), new_BasketItem (fake_item ''1'' 1),
                    new_BasketItem (fake_item ''2'' 2)]\<rparr>"

section \<open>Properties of the order validator\<close>

subsection \<open>Auxiliary facts\<close>

lemma msg_distinct:
  "msg_no_address \<noteq> msg_wrong_total"
  "msg_no_address \<noteq> msg_item_not_found i"
  "msg_wrong_total \<noteq> msg_item_not_found i"
  by (simp_all add: msg_no_address_def msg_wrong_total_def msg_item_not_found_def msg_item_prefix_def)

lemma msg_item_not_found_inj: "msg_item_not_found x = msg_item_not_found y \<longleftrightarrow> x = y"
  by (simp add: msg_item_not_found_def)

lemma itemExists_iff: "itemExists dat i \<longleftrightarrow> i \<in> dom (canonical dat)"
  by (auto simp: itemExists_def list_ex_iff canonical_def dom_map_of_conv_image_fst image_image)

lemma find_canonical: "find (\<lambda>item. id' item = i) dat = canonical dat i"
  unfolding canonical_def by (induction dat) auto

lemma first_missing_None:
  "first_missing dat ids = None \<longleftrightarrow> set ids \<subseteq> dom (canonical dat)"
  by (induction ids) (auto simp: itemExists_iff)

lemma first_missing_append:
  "set pre \<subseteq> dom (canonical dat) \<Longrightarrow> x \<notin> dom (canonical dat) \<Longrightarrow>
   first_missing dat (pre @ x # post) = Some x"
  by (induction pre) (auto simp: itemExists_iff)

lemma first_missing_Some:
  "first_missing dat ids = Some x \<Longrightarrow>
   \<exists>pre post. ids = pre @ x # post \<and> set pre \<subseteq> dom (canonical dat) \<and> x \<notin> dom (canonical dat)"
proof (induction ids)
  case Nil
  then show ?case by simp
next
  case (Cons a ids)
  show ?case
  proof (cases "itemExists dat a")
    case True
    with Cons obtain pre post where
      "ids = pre @ x # post" "set pre \<subseteq> dom (canonical dat)" "x \<notin> dom (canonical dat)"
      by auto
    with True have "a # ids = (a # pre) @ x # post \<and> set (a # pre) \<subseteq> dom (canonical dat)
        \<and> x \<notin> dom (canonical dat)"
      by (simp add: itemExists_iff)
    then show ?thesis by blast
  next
    case False
    with Cons.prems have "x = a" by simp
    with False have "a # ids = [] @ x # ids \<and> set [] \<subseteq> dom (canonical dat)
        \<and> x \<notin> dom (canonical dat)"
      by (simp add: itemExists_iff)
    then show ?thesis by blast
  qed
qed

lemma reduce_total:
  "set ids \<subseteq> dom (canonical dat) \<Longrightarrow>
   foldl (\<lambda>sum itemId. sum + price_or_0 (find (\<lambda>item. id' item = itemId) dat)) acc ids
     = acc + expectedTotal dat ids"
proof (induction ids arbitrary: acc)
  case Nil
  then show ?case by (simp add: expectedTotal_def)
next
  case (Cons a ids)
  from Cons.prems obtain it where c: "canonical dat a = Some it" by auto
  have "price_or_0 (Some it) = price it" by (simp add: price_or_0_def)
  with c Cons show ?case by (simp add: expectedTotal_def find_canonical)
qed

lemma calculatedTotal_expected:
  "set ids \<subseteq> dom (canonical dat) \<Longrightarrow> calculatedTotal dat ids = expectedTotal dat ids"
  by (simp add: calculatedTotal_def reduce_total)

subsection \<open>The three checks\<close>

text \<open>
  C1.  The address check comes first: an order whose address is absent or empty
  is rejected with the missing-address message, whatever its items and total,
  and with neither of the two other messages.
\<close>

theorem postOrder_address_first:
  assumes "address orderInfo = None \<or> address orderInfo = Some []"
  shows "postOrder_on dat orderInfo = ErrorResponse msg_no_address
    \<and> postOrder_on dat orderInfo \<noteq> ErrorResponse (msg_item_not_found i)
    \<and> postOrder_on dat orderInfo \<noteq> ErrorResponse msg_wrong_total"
proof -
  from assms have "falsy_string (address orderInfo)"
    by (auto simp: falsy_string_def)
  then have "postOrder_on dat orderInfo = ErrorResponse msg_no_address"
    by (simp add: postOrder_on_def)
  then show ?thesis by (simp add: msg_distinct)
qed

theorem postOrder_address_first_witness:
  "address \<lparr>payment = online, email = [], phone = [], address = Some [], total = 5,
      items = [ascii ''1'', ascii ''99'']\<rparr> = Some []
   \<and> first_missing data [ascii ''1'', ascii ''99''] = Some (ascii ''99'')
   \<and> calculatedTotal data [ascii ''1'', ascii ''99''] \<noteq> 5
   \<and> postOrder \<lparr>payment = online, email = [], phone = [], address = Some [], total = 5,
      items = [ascii ''1'', ascii ''99'']\<rparr> = ErrorResponse msg_no_address
   \<and> postOrder \<lparr>payment = online, email = [], phone = [], address = None, total = 5,
      items = [ascii ''1'', ascii ''99'']\<rparr> = ErrorResponse msg_no_address"
  using postOrder_address_first [of "\<lparr>payment = online, email = [], phone = [], address = Some [],
      total = 5, items = [ascii ''1'', ascii ''99'']\<rparr>" data]
    postOrder_address_first [of "\<lparr>payment = online, email = [], phone = [], address = None,
      total = 5, items = [ascii ''1'', ascii ''99'']\<rparr>" data]
  by (simp add: postOrder_def ascii_def data_def fake_item_def itemExists_def calculatedTotal_def price_or_0_def)

text \<open>
  C2.  With an address present and non-empty, an order that names an id absent
  from the canonical set is rejected with the not-found message of the first
  such id in sequence order, whatever its total; the message names that id and
  no other.
\<close>

theorem postOrder_first_missing_item:
  assumes "address orderInfo = Some a" and "a \<noteq> []"
    and "\<not> set (items orderInfo) \<subseteq> dom (canonical dat)"
  shows "\<exists>pre x post. items orderInfo = pre @ x # post
      \<and> set pre \<subseteq> dom (canonical dat) \<and> x \<notin> dom (canonical dat)
      \<and> postOrder_on dat orderInfo = ErrorResponse (msg_item_not_found x)
      \<and> (\<forall>y. postOrder_on dat orderInfo = ErrorResponse (msg_item_not_found y) \<longrightarrow> y = x)"
proof -
  from assms(3) have "first_missing dat (items orderInfo) \<noteq> None"
    by (simp add: first_missing_None)
  then obtain x where x: "first_missing dat (items orderInfo) = Some x" by blast
  then obtain pre post where d: "items orderInfo = pre @ x # post"
      "set pre \<subseteq> dom (canonical dat)" "x \<notin> dom (canonical dat)"
    using first_missing_Some by blast
  from assms(1,2) x have r: "postOrder_on dat orderInfo = ErrorResponse (msg_item_not_found x)"
    by (simp add: postOrder_on_def falsy_string_def)
  then have "\<forall>y. postOrder_on dat orderInfo = ErrorResponse (msg_item_not_found y) \<longrightarrow> y = x"
    by (simp add: msg_item_not_found_inj)
  with d r show ?thesis by blast
qed

theorem postOrder_first_missing_item_witness:
  "address \<lparr>payment = online, email = [], phone = [], address = Some (ascii ''Lenina 1''),
      total = 1, items = [ascii ''1'', ascii ''99'', ascii ''1'', ascii ''98'']\<rparr>
     = Some (ascii ''Lenina 1'')
   \<and> ascii ''Lenina 1'' \<noteq> []
   \<and> \<not> set [ascii ''1'', ascii ''99'', ascii ''1'', ascii ''98''] \<subseteq> dom (canonical data)
   \<and> postOrder \<lparr>payment = online, email = [], phone = [], address = Some (ascii ''Lenina 1''),
      total = 1, items = [ascii ''1'', ascii ''99'', ascii ''1'', ascii ''98'']\<rparr>
     = ErrorResponse (msg_item_not_found (ascii ''99''))"
proof -
  let ?o = "\<lparr>payment = online, email = [], phone = [], address = Some (ascii ''Lenina 1''),
      total = 1, items = [ascii ''1'', ascii ''99'', ascii ''1'', ascii ''98'']\<rparr>"
  have h1: "address ?o = Some (ascii ''Lenina 1'')" by simp
  have h2: "ascii ''Lenina 1'' \<noteq> []" by (simp add: ascii_def)
  have h3: "\<not> set (items ?o) \<subseteq> dom (canonical data)"
    by (simp add: canonical_def data_def fake_item_def ascii_def)
  have r: "postOrder ?o = ErrorResponse (msg_item_not_found (ascii ''99''))"
    by (simp add: postOrder_def postOrder_on_def falsy_string_def ascii_def data_def
        fake_item_def itemExists_def)
  from postOrder_first_missing_item [OF h1 h2 h3] h1 h2 h3 r show ?thesis by simp
qed

text \<open>
  C3.  With an address present and non-empty and every ordered id in the
  canonical set, the order is rejected with the wrong-total message exactly when
  the expected total (duplicates counted) differs from the requested total, and
  is otherwise confirmed with an order id and the requested total.
\<close>

theorem postOrder_total_check:
  assumes "address orderInfo = Some a" and "a \<noteq> []"
    and "set (items orderInfo) \<subseteq> dom (canonical dat)"
  shows "(postOrder_on dat orderInfo = ErrorResponse msg_wrong_total
            \<longleftrightarrow> expectedTotal dat (items orderInfo) \<noteq> total orderInfo)
      \<and> (expectedTotal dat (items orderInfo) = total orderInfo
            \<longleftrightarrow> postOrder_on dat orderInfo
                  = OrderPostResponse (ascii ''test-order-id'') (total orderInfo))"
proof -
  from assms(3) have "first_missing dat (items orderInfo) = None"
    by (simp add: first_missing_None)
  with assms show ?thesis
    by (simp add: postOrder_on_def falsy_string_def calculatedTotal_expected)
qed

theorem postOrder_total_check_witness:
  "set [ascii ''3'', ascii ''3''] \<subseteq> dom (canonical data)
   \<and> expectedTotal data [ascii ''3'', ascii ''3''] = 6
   \<and> postOrder \<lparr>payment = online, email = [], phone = [], address = Some (ascii ''Lenina 1''),
        total = 6, items = [ascii ''3'', ascii ''3'']\<rparr>
      = OrderPostResponse (ascii ''test-order-id'') 6
   \<and> postOrder \<lparr>payment = online, email = [], phone = [], address = Some (ascii ''Lenina 1''),
        total = 3, items = [ascii ''3'', ascii ''3'']\<rparr>
      = ErrorResponse msg_wrong_total"
proof -
  let ?a = "ascii ''Lenina 1''"
  let ?ok = "\<lparr>payment = online, email = [], phone = [], address = Some ?a,
        total = 6, items = [ascii ''3'', ascii ''3'']\<rparr>"
  let ?bad = "\<lparr>payment = online, email = [], phone = [], address = Some ?a,
        total = 3, items = [ascii ''3'', ascii ''3'']\<rparr>"
  have h2: "?a \<noteq> []" by (simp add: ascii_def)
  have h3: "set [ascii ''3'', ascii ''3''] \<subseteq> dom (canonical data)"
    by (simp add: canonical_def data_def fake_item_def ascii_def)
  have e: "expectedTotal data [ascii ''3'', ascii ''3''] = 6"
    by (simp add: expectedTotal_def canonical_def data_def fake_item_def ascii_def)
  have "postOrder_on data ?ok = OrderPostResponse (ascii ''test-order-id'') 6"
    using postOrder_total_check [of ?ok ?a data] h2 h3 e by simp
  moreover have "postOrder_on data ?bad = ErrorResponse msg_wrong_total"
    using postOrder_total_check [of ?bad ?a data] h2 h3 e by simp
  ultimately show ?thesis using h3 e by (simp add: postOrder_def)
qed

text \<open>
  C10.  With an address present and non-empty and no items, the order is
  confirmed exactly when its total is 0.
\<close>

theorem postOrder_empty_items:
  assumes "address orderInfo = Some a" and "a \<noteq> []" and "items orderInfo = []"
  shows "postOrder_on dat orderInfo =
     (if total orderInfo = 0 then OrderPostResponse (ascii ''test-order-id'') 0
      else ErrorResponse msg_wrong_total)"
  using assms by (auto simp: postOrder_on_def falsy_string_def calculatedTotal_def)

theorem postOrder_empty_items_witness:
  "postOrder \<lparr>payment = offline, email = [], phone = [], address = Some (ascii ''Lenina 1''),
        total = 0, items = []\<rparr> = OrderPostResponse (ascii ''test-order-id'') 0
   \<and> postOrder \<lparr>payment = offline, email = [], phone = [], address = Some (ascii ''Lenina 1''),
        total = 4, items = []\<rparr> = ErrorResponse msg_wrong_total"
proof -
  have h2: "ascii ''Lenina 1'' \<noteq> []" by (simp add: ascii_def)
  show ?thesis
    using postOrder_empty_items [of "\<lparr>payment = offline, email = [], phone = [],
          address = Some (ascii ''Lenina 1''), total = 0, items = []\<rparr>" "ascii ''Lenina 1''" data]
      postOrder_empty_items [of "\<lparr>payment = offline, email = [], phone = [],
          address = Some (ascii ''Lenina 1''), total = 4, items = []\<rparr>" "ascii ''Lenina 1''" data]
      h2
    by (simp add: postOrder_def)
qed

section \<open>Properties of the collections\<close>

subsection \<open>Auxiliary facts\<close>

lemma splice_in_range:
  assumes "0 \<le> i" and "i < int (length xs)"
  shows "splice' xs i 1 = take (nat i) xs @ drop (Suc (nat i)) xs"
proof -
  from assms have "min i (int (length xs)) = i" and "min 1 (int (length xs) - i) = 1"
    by simp_all
  moreover from assms have "nat (i + 1) = Suc (nat i)" by simp
  ultimately show ?thesis using assms by (simp add: splice'_def Let_def)
qed

lemma splice_above:
  assumes "int (length xs) \<le> i"
  shows "splice' xs i 1 = xs"
proof -
  from assms have "min i (int (length xs)) = int (length xs)" and "\<not> i < 0"
    by simp_all
  then show ?thesis by (simp add: splice'_def Let_def)
qed

lemma splice_negative:
  assumes "i < 0"
  shows "splice' xs i 1 = take (nat (int (length xs) + i)) xs @ drop (Suc (nat (int (length xs) + i))) xs"
proof (cases "0 \<le> int (length xs) + i")
  case True
  with assms have "max (int (length xs) + i) 0 = int (length xs) + i"
    and "min 1 (int (length xs) - (int (length xs) + i)) = 1"
    and "nat (int (length xs) + i + 1) = Suc (nat (int (length xs) + i))"
    by simp_all
  with assms show ?thesis by (simp add: splice'_def Let_def)
next
  case False
  then have m: "max (int (length xs) + i) 0 = 0" and n: "nat (int (length xs) + i) = 0"
    by simp_all
  show ?thesis
  proof (cases xs)
    case Nil
    then show ?thesis by (simp add: splice'_def Let_def)
  next
    case (Cons a list)
    then have "min 1 (int (length xs)) = 1" by simp
    with assms m n show ?thesis by (simp add: splice'_def Let_def)
  qed
qed

lemma remove_nth_shift:
  assumes "k < length xs"
  shows "length (take k xs @ drop (Suc k) xs) = length xs - 1
    \<and> (\<forall>j < k. (take k xs @ drop (Suc k) xs) ! j = xs ! j)
    \<and> (\<forall>j. k \<le> j \<and> j < length xs - 1 \<longrightarrow> (take k xs @ drop (Suc k) xs) ! j = xs ! Suc j)"
  using assms by (auto simp: nth_append min_def)

lemma addItem_appends:
  assumes "items' this = Some xs"
  shows "addItem this item = (Inr (), this\<lparr>items' := Some (xs @ [item])\<rparr>)"
  using assms by (simp add: addItem_def)

subsection \<open>Deleting from the basket\<close>

text \<open>
  C4, as stated, fails: on the basket [A, B, C], \<^verbatim>\<open>delete(3)\<close> returns normally
  and leaves the array as it is; nothing signals an index out of range.
\<close>

theorem delete_counterexample:
  "delete basket_ABC 3 = (Inr (), basket_ABC) \<and> \<not> isl (fst (delete basket_ABC 3))"
  by (simp add: delete_def basket_ABC_def splice'_def)

text \<open>
  C4, amended.  On a basket whose array exists, \<^verbatim>\<open>delete(index)\<close> always returns
  normally and never touches \<^verbatim>\<open>total\<close>.  With 0 \<le> index < length it removes
  exactly the element at the index, the later elements moving one position
  earlier.  With index \<ge> length it leaves the array unchanged.  With a negative
  index it removes the element at length + index, counted from the end and
  clamped at 0.
\<close>

theorem delete_splices:
  assumes "items' this = Some xs"
  shows "fst (delete this i) = Inr ()
    \<and> List.total (snd (delete this i)) = List.total this
    \<and> (0 \<le> i \<and> i < int (length xs) \<longrightarrow>
          (\<exists>ys. get_items (snd (delete this i)) = Some ys
            \<and> ys = take (nat i) xs @ drop (Suc (nat i)) xs
            \<and> length ys = length xs - 1
            \<and> (\<forall>j < nat i. ys ! j = xs ! j)
            \<and> (\<forall>j. nat i \<le> j \<and> j < length ys \<longrightarrow> ys ! j = xs ! Suc j)))
    \<and> (int (length xs) \<le> i \<longrightarrow> snd (delete this i) = this)
    \<and> (i < 0 \<longrightarrow> get_items (snd (delete this i))
          = Some (take (nat (int (length xs) + i)) xs @ drop (Suc (nat (int (length xs) + i))) xs))"
proof -
  have d: "delete this i = (Inr (), this\<lparr>items' := Some (splice' xs i 1)\<rparr>)"
    using assms by (simp add: delete_def)
  have in_range: "\<exists>ys. get_items (snd (delete this i)) = Some ys
            \<and> ys = take (nat i) xs @ drop (Suc (nat i)) xs
            \<and> length ys = length xs - 1
            \<and> (\<forall>j < nat i. ys ! j = xs ! j)
            \<and> (\<forall>j. nat i \<le> j \<and> j < length ys \<longrightarrow> ys ! j = xs ! Suc j)"
    if r: "0 \<le> i \<and> i < int (length xs)"
  proof -
    from r have n: "nat i < length xs" by linarith
    from r have "get_items (snd (delete this i)) = Some (take (nat i) xs @ drop (Suc (nat i)) xs)"
      by (simp add: d get_items_def splice_in_range)
    with remove_nth_shift [OF n] show ?thesis by simp
  qed
  have above: "snd (delete this i) = this" if "int (length xs) \<le> i"
    using that assms by (simp add: d splice_above)
  have below: "get_items (snd (delete this i))
          = Some (take (nat (int (length xs) + i)) xs @ drop (Suc (nat (int (length xs) + i))) xs)"
    if "i < 0"
    using that by (simp add: d get_items_def splice_negative)
  from d in_range above below show ?thesis by simp
qed

theorem delete_splices_witness:
  "items' basket_ABC = Some [new_BasketItem (fake_item ''0'' 0), new_BasketItem (fake_item ''1'' 1),
                    new_BasketItem (fake_item ''2'' 2)]
   \<and> get_items (snd (delete basket_ABC 1))
       = Some [new_BasketItem (fake_item ''0'' 0), new_BasketItem (fake_item ''2'' 2)]
   \<and> snd (delete basket_ABC 3) = basket_ABC
   \<and> fst (delete basket_ABC 3) = Inr ()
   \<and> get_items (snd (delete basket_ABC (- 1)))
       = Some [new_BasketItem (fake_item ''0'' 0), new_BasketItem (fake_item ''1'' 1)]"
proof -
  have h: "items' basket_ABC = Some [new_BasketItem (fake_item ''0'' 0),
      new_BasketItem (fake_item ''1'' 1), new_BasketItem (fake_item ''2'' 2)]"
    by (simp add: basket_ABC_def)
  from delete_splices [OF h, of 1] delete_splices [OF h, of 3] delete_splices [OF h, of "- 1"] h
  show ?thesis by simp
qed

subsection \<open>Loading the catalogue\<close>

text \<open>
  C5.  When the collaborator resolves, \<^verbatim>\<open>load\<close> returns normally, \<^verbatim>\<open>total\<close> is
  the reported total and the array holds one constructed item per raw item, in
  the same order, whatever it held before.  When the collaborator rejects,
  \<^verbatim>\<open>load\<close> fails with the same reason and the state is the one before the call.
\<close>

theorem load_replaces_or_keeps:
  "(settled = Inr dat \<longrightarrow>
      fst (load ItemConstructor settled this) = Inr ()
      \<and> List.total (snd (load ItemConstructor settled this)) = Some (IList.total dat)
      \<and> (\<exists>ys. get_items (snd (load ItemConstructor settled this)) = Some ys
           \<and> length ys = length (IList.items dat)
           \<and> (\<forall>k < length ys. ys ! k = ItemConstructor (IList.items dat ! k))))
   \<and> (settled = Inl reason \<longrightarrow> load ItemConstructor settled this = (Inl reason, this))"
  by (simp add: load_def get_items_def)

theorem load_replaces_or_keeps_witness:
  "fst (CatalogList_load (Inr loadItemsList :: unit + IItemModel IList) new_List) = Inr ()
   \<and> List.total (snd (CatalogList_load (Inr loadItemsList :: unit + IItemModel IList) new_List)) = Some 10
   \<and> get_items (snd (CatalogList_load (Inr loadItemsList :: unit + IItemModel IList) new_List))
       = Some (map new_CatalogItem data)
   \<and> length data = 10
   \<and> CatalogList_load (Inl () :: unit + IItemModel IList) new_List = (Inl (), new_List)"
proof -
  let ?ok = "Inr loadItemsList :: unit + IItemModel IList"
  let ?after = "snd (load new_CatalogItem ?ok new_List)"
  note t = load_replaces_or_keeps [of ?ok loadItemsList new_CatalogItem new_List]
  note f = load_replaces_or_keeps [of "Inl ()" _ new_CatalogItem new_List "()"]
  have l: "length data = 10" by (simp add: data_def)
  from t obtain ys where ys: "get_items ?after = Some ys" "length ys = length (IList.items loadItemsList)"
      "\<forall>k < length ys. ys ! k = new_CatalogItem (IList.items loadItemsList ! k)"
    by blast
  then have "ys = map new_CatalogItem data"
    by (simp add: list_eq_iff_nth_eq loadItemsList_def)
  with ys(1) have g: "get_items ?after = Some (map new_CatalogItem data)" by simp
  from t have "fst (load new_CatalogItem ?ok new_List) = Inr ()"
    and "List.total ?after = Some 10"
    by (simp_all add: loadItemsList_def)
  moreover from f have "load new_CatalogItem (Inl () :: unit + IItemModel IList) new_List = (Inl (), new_List)"
    by simp
  ultimately show ?thesis using g l by (simp add: CatalogList_load_def)
qed

subsection \<open>A new basket\<close>

text \<open>
  C6.  The code at the input the claim starts from: the array of a newly
  constructed basket is \<^verbatim>\<open>undefined\<close>, not an empty sequence, and \<^verbatim>\<open>addItem\<close> on
  it throws a \<^verbatim>\<open>TypeError\<close> and adds nothing.
\<close>

theorem new_basket_has_no_items:
  "get_items (new_List :: BasketItem List) = None
   \<and> addItem (new_List :: BasketItem List) item = (Inl TypeError, new_List)"
  by (simp add: get_items_def new_List_def addItem_def)

subsection \<open>Selecting a catalogue item\<close>

text \<open>
  C9, as stated, fails: on the loaded catalogue of ten items, \<^verbatim>\<open>itemClick(99)\<close>
  proceeds like any other call, logging the index and returning normally.
\<close>

theorem itemClick_counterexample:
  "itemClick (snd (CatalogList_load (Inr loadItemsList :: unit + IItemModel IList) new_List)) 99
     = (Inr (), [(msg_open_card, 99)],
        snd (CatalogList_load (Inr loadItemsList :: unit + IItemModel IList) new_List))
   \<and> get_items (snd (CatalogList_load (Inr loadItemsList :: unit + IItemModel IList) new_List))
       = Some (map new_CatalogItem data)
   \<and> length (map new_CatalogItem data) = 10"
  by (simp add: itemClick_def CatalogList_load_def load_def loadItemsList_def get_items_def data_def)

text \<open>
  C9, amended.  \<^verbatim>\<open>itemClick(index)\<close> checks nothing: for every catalogue state
  and every index it logs the index and returns normally, and it leaves
  \<^verbatim>\<open>total\<close> and the items as they were.
\<close>

theorem itemClick_no_check_no_mutation:
  "fst (itemClick this itemIndex) = Inr ()
   \<and> fst (snd (itemClick this itemIndex)) = [(msg_open_card, itemIndex)]
   \<and> snd (snd (itemClick this itemIndex)) = this
   \<and> List.total (snd (snd (itemClick this itemIndex))) = List.total this
   \<and> get_items (snd (snd (itemClick this itemIndex))) = get_items this"
  by (simp add: itemClick_def)

section \<open>Properties of the form fields\<close>

subsection \<open>Auxiliary facts\<close>

lemma trim_Nil_iff: "trim v = [] \<longleftrightarrow> (\<forall>c \<in> set v. is_white_space c)"
proof
  assume "trim v = []"
  then have "dropWhile is_white_space (rev (dropWhile is_white_space v)) = []"
    by (simp add: trim_def)
  then have all: "\<forall>c \<in> set (dropWhile is_white_space v). is_white_space c"
    by simp
  have "dropWhile is_white_space v = []"
  proof (rule ccontr)
    assume ne: "dropWhile is_white_space v \<noteq> []"
    then have "\<not> is_white_space (hd (dropWhile is_white_space v))"
      by (rule hd_dropWhile)
    moreover from ne have "hd (dropWhile is_white_space v) \<in> set (dropWhile is_white_space v)"
      by simp
    ultimately show False using all by blast
  qed
  then show "\<forall>c \<in> set v. is_white_space c"
    by simp
next
  assume "\<forall>c \<in> set v. is_white_space c"
  then have "dropWhile is_white_space v = []"
    by simp
  then show "trim v = []" by (simp add: trim_def del: dropWhile_eq_Nil_conv)
qed

lemma isValid_text_iff:
  "isValid (EditTextField n h v) \<longleftrightarrow> trim v \<noteq> []"
  "isValid (EditTextField n h v) \<longleftrightarrow> (\<exists>c \<in> set v. \<not> is_white_space c)"
  by (simp_all add: trim_Nil_iff)

lemma isValid_text_examples:
  "\<not> isValid (EditTextField n h (ascii ''  ''))"
  "isValid (EditTextField n h (ascii ''x''))"
  "\<not> isValid (createEditTextField n h)"
  by (simp_all add: trim_def ascii_def is_white_space_def createEditTextField_def)

lemma isValid_choice_set:
  "isValid (RadioButtonField n cs (Some s)) \<longleftrightarrow> s \<noteq> []"
  "\<not> isValid (createRadioButtonField n cs)"
  by (simp_all add: createRadioButtonField_def)

lemma collect_assign: "collect m f = assign m (fieldName f) (field_value f)"
  by (cases f) (simp_all add: field_value_def)

lemma reduce_collect:
  "foldl collect acc fs n =
     (if n \<noteq> ascii ''__proto__'' \<and> n \<in> fieldName ` set fs
      then Some (field_value (last (filter (\<lambda>g. fieldName g = n) fs)))
      else acc n)"
proof (induction fs rule: rev_induct)
  case Nil
  then show ?case by simp
next
  case (snoc f fs)
  define m where "m = foldl collect acc fs"
  from snoc have ih: "m n =
     (if n \<noteq> ascii ''__proto__'' \<and> n \<in> fieldName ` set fs
      then Some (field_value (last (filter (\<lambda>g. fieldName g = n) fs)))
      else acc n)"
    by (simp add: m_def)
  have "foldl collect acc (fs @ [f]) = collect m f"
    by (simp add: m_def)
  then have step: "foldl collect acc (fs @ [f]) n =
      (if fieldName f = ascii ''__proto__'' then m n
       else if n = fieldName f then Some (field_value f) else m n)"
    by (simp add: collect_assign assign_def)
  show ?case
  proof (cases "fieldName f = n")
    case True
    show ?thesis
    proof (cases "n = ascii ''__proto__''")
      case True
      with step ih show ?thesis by simp
    next
      case False
      with step \<open>fieldName f = n\<close> show ?thesis by simp
    qed
  next
    case False
    with step ih show ?thesis by auto
  qed
qed

lemma last_filter_distinct:
  assumes "distinct (map fieldName fs)" and "f \<in> set fs"
  shows "filter (\<lambda>g. fieldName g = fieldName f) fs = [f]"
  using assms
proof (induction fs)
  case Nil
  then show ?case by simp
next
  case (Cons a fs)
  show ?case
  proof (cases "a = f")
    case True
    with Cons.prems have "\<forall>g \<in> set fs. fieldName g \<noteq> fieldName f" by (auto simp: image_iff)
    then have "filter (\<lambda>g. fieldName g = fieldName f) fs = []" by (simp add: filter_empty_conv)
    with True show ?thesis by simp
  next
    case False
    with Cons.prems have "f \<in> set fs" and "fieldName a \<noteq> fieldName f" by auto
    with Cons show ?thesis by simp
  qed
qed

lemma getFormData_drops_proto:
  "getFormData \<lparr>bottomButtonText = [],
      fields' = [EditTextField (ascii ''__proto__'') [] (ascii ''x'')]\<rparr> = Inr Map.empty"
  by (simp add: getFormData_def js_and_def assign_def)

subsection \<open>Field validity\<close>

text \<open>
  C7.  The code at the input where it departs from the claim: a choice field
  whose \<^verbatim>\<open>selected\<close> is unset (\<^verbatim>\<open>undefined\<close>) is valid, and so is a form made of
  it, because \<^verbatim>\<open>undefined !== ''\<close> holds.  The text-field half of the claim, and
  the choice-field half for a selection that is a string, are
  \<open>isValid_text_iff\<close>, \<open>isValid_text_examples\<close> and \<open>isValid_choice_set\<close>.
\<close>

theorem isValid_choice_unset:
  "isValid (RadioButtonField n cs None)
   \<and> OrderPopup_isValid \<lparr>bottomButtonText = b, fields' = [RadioButtonField n cs None]\<rparr>"
  by (simp add: OrderPopup_isValid_def)

subsection \<open>Collecting the values of a form\<close>

text \<open>
  C8, as stated, fails: in a form with two text fields of the same name, the
  result maps the name of the first field to the value of the second, not to
  the first field's current value.
\<close>

theorem getFormData_counterexample:
  "getFormData \<lparr>bottomButtonText = [],
      fields' = [EditTextField (ascii ''a'') [] (ascii ''1''),
                 EditTextField (ascii ''a'') [] (ascii ''2'')]\<rparr>
     = Inr [ascii ''a'' \<mapsto> Some (ascii ''2'')]
   \<and> [ascii ''a'' \<mapsto> Some (ascii ''2'')] (fieldName (EditTextField (ascii ''a'') [] (ascii ''1'')))
       \<noteq> Some (field_value (EditTextField (ascii ''a'') [] (ascii ''1'')))"
  by (simp add: getFormData_def js_and_def assign_def ascii_def field_value_def)

text \<open>
  C8, amended.  For every form, valid or not, \<^verbatim>\<open>getFormData\<close> returns the
  collected object and never its gate operand.  The object's keys are field
  names, and under the name of each field other than \<^verbatim>\<open>__proto__\<close> it holds the
  current value of the last field of that name: the field's own value when the
  names of the form are pairwise distinct.
\<close>

theorem getFormData_collects:
  "\<exists>m. getFormData this = Inr m
     \<and> dom m \<subseteq> fieldName ` set (fields' this)
     \<and> (\<forall>f \<in> set (fields' this). fieldName f \<noteq> ascii ''__proto__'' \<longrightarrow>
          m (fieldName f)
            = Some (field_value (last (filter (\<lambda>g. fieldName g = fieldName f) (fields' this)))))
     \<and> (distinct (map fieldName (fields' this)) \<longrightarrow>
          (\<forall>f \<in> set (fields' this). fieldName f \<noteq> ascii ''__proto__'' \<longrightarrow>
             m (fieldName f) = Some (field_value f)))"
proof -
  let ?m = "foldl collect Map.empty (fields' this)"
  have r: "getFormData this = Inr ?m"
    by (simp add: getFormData_def js_and_def)
  have d: "dom ?m \<subseteq> fieldName ` set (fields' this)"
    by (auto simp: dom_def reduce_collect split: if_splits)
  have l: "\<forall>f \<in> set (fields' this). fieldName f \<noteq> ascii ''__proto__'' \<longrightarrow>
      ?m (fieldName f)
        = Some (field_value (last (filter (\<lambda>g. fieldName g = fieldName f) (fields' this))))"
    by (simp add: reduce_collect)
  have "\<forall>f \<in> set (fields' this). fieldName f \<noteq> ascii ''__proto__'' \<longrightarrow>
             ?m (fieldName f) = Some (field_value f)"
    if "distinct (map fieldName (fields' this))"
    using that l by (simp add: last_filter_distinct)
  with r d l show ?thesis by blast
qed

theorem getFormData_collects_witness:
  "\<not> OrderPopup_isValid \<lparr>bottomButtonText = [],
      fields' = [RadioButtonField (ascii ''payment'') [ascii ''online'', ascii ''offline''] (Some []),
                 EditTextField (ascii ''address'') [] (ascii ''Lenina 1'')]\<rparr>
   \<and> getFormData \<lparr>bottomButtonText = [],
      fields' = [RadioButtonField (ascii ''payment'') [ascii ''online'', ascii ''offline''] (Some []),
                 EditTextField (ascii ''address'') [] (ascii ''Lenina 1'')]\<rparr>
     = Inr [ascii ''payment'' \<mapsto> Some [], ascii ''address'' \<mapsto> Some (ascii ''Lenina 1'')]"
proof -
  let ?p = "\<lparr>bottomButtonText = [],
      fields' = [RadioButtonField (ascii ''payment'') [ascii ''online'', ascii ''offline''] (Some []),
                 EditTextField (ascii ''address'') [] (ascii ''Lenina 1'')]\<rparr>"
  have v: "\<not> OrderPopup_isValid ?p" by (simp add: OrderPopup_isValid_def)
  from getFormData_collects [of ?p] obtain m where "getFormData ?p = Inr m" by blast
  then have "getFormData ?p
     = Inr [ascii ''payment'' \<mapsto> Some [], ascii ''address'' \<mapsto> Some (ascii ''Lenina 1'')]"
    by (simp add: getFormData_def js_and_def assign_def ascii_def)
  with v show ?thesis by simp
qed

end
